theory Spec2Isabelle
  imports Complex_Main "HOL-Library.Multiset" "HOL-Library.Product_Lexorder"
    "HOL-Library.List_Lexorder" "HOL-Library.Char_ord"
begin

section \<open>JavaScript numbers\<close>

text \<open>
  A JavaScript number is an IEEE-754 double. The dashboard compares numbers with
  constants, subtracts them inside a sort comparator, tests them for truthiness and
  computes an occupancy percentage and a circle radius from them. A finite double is
  modelled by the real number it denotes (comparisons of doubles are exact, and the sign
  of a difference of two doubles is the sign of the exact difference); the three special
  values are kept apart. Rounding of arithmetic results and the sign of zero are not
  modelled: on finite values the model computes the exact result, which is the code's
  wherever that result is a double, as it is at every input evaluated below.
\<close>

datatype jsnum = Fin real | PInf | NInf | NaN

text \<open>\<open>a >= b\<close>: false as soon as one side is NaN.\<close>

fun js_ge :: "jsnum \<Rightarrow> jsnum \<Rightarrow> bool" where
  "js_ge NaN _ = False"
| "js_ge _ NaN = False"
| "js_ge (Fin a) (Fin b) = (b \<le> a)"
| "js_ge PInf _ = True"
| "js_ge _ NInf = True"
| "js_ge (Fin _) PInf = False"
| "js_ge NInf (Fin _) = False"
| "js_ge NInf PInf = False"

text \<open>\<open>a < b\<close>: false as soon as one side is NaN.\<close>

fun js_lt :: "jsnum \<Rightarrow> jsnum \<Rightarrow> bool" where
  "js_lt NaN _ = False"
| "js_lt _ NaN = False"
| "js_lt (Fin a) (Fin b) = (a < b)"
| "js_lt PInf _ = False"
| "js_lt _ NInf = False"
| "js_lt (Fin _) PInf = True"
| "js_lt NInf (Fin _) = True"
| "js_lt NInf PInf = True"

text \<open>
  Arithmetic on the special values follows IEEE-754; on finite values it is the exact
  arithmetic of the reals. A zero divisor is taken as \<open>+0\<close>.
\<close>

fun js_neg :: "jsnum \<Rightarrow> jsnum" where
  "js_neg (Fin a) = Fin (- a)"
| "js_neg PInf = NInf"
| "js_neg NInf = PInf"
| "js_neg NaN = NaN"

fun js_add :: "jsnum \<Rightarrow> jsnum \<Rightarrow> jsnum" where
  "js_add NaN _ = NaN"
| "js_add _ NaN = NaN"
| "js_add (Fin a) (Fin b) = Fin (a + b)"
| "js_add PInf NInf = NaN"
| "js_add NInf PInf = NaN"
| "js_add PInf _ = PInf"
| "js_add NInf _ = NInf"
| "js_add (Fin _) PInf = PInf"
| "js_add (Fin _) NInf = NInf"

definition js_sub :: "jsnum \<Rightarrow> jsnum \<Rightarrow> jsnum" where
  "js_sub a b = js_add a (js_neg b)"

text \<open>An infinity with the sign of \<open>s\<close>, for \<open>s \<noteq> 0\<close>.\<close>

definition signed_inf :: "real \<Rightarrow> jsnum" where
  "signed_inf s = (if 0 < s then PInf else NInf)"

fun js_mul :: "jsnum \<Rightarrow> jsnum \<Rightarrow> jsnum" where
  "js_mul NaN _ = NaN"
| "js_mul _ NaN = NaN"
| "js_mul (Fin a) (Fin b) = Fin (a * b)"
| "js_mul (Fin a) PInf = (if a = 0 then NaN else signed_inf a)"
| "js_mul (Fin a) NInf = (if a = 0 then NaN else signed_inf (- a))"
| "js_mul PInf (Fin b) = (if b = 0 then NaN else signed_inf b)"
| "js_mul NInf (Fin b) = (if b = 0 then NaN else signed_inf (- b))"
| "js_mul PInf PInf = PInf"
| "js_mul NInf NInf = PInf"
| "js_mul PInf NInf = NInf"
| "js_mul NInf PInf = NInf"

fun js_div :: "jsnum \<Rightarrow> jsnum \<Rightarrow> jsnum" where
  "js_div NaN _ = NaN"
| "js_div _ NaN = NaN"
| "js_div (Fin a) (Fin b) =
     (if b \<noteq> 0 then Fin (a / b) else if a = 0 then NaN else signed_inf a)"
| "js_div (Fin _) PInf = Fin 0"
| "js_div (Fin _) NInf = Fin 0"
| "js_div PInf (Fin b) = (if 0 \<le> b then PInf else NInf)"
| "js_div NInf (Fin b) = (if 0 \<le> b then NInf else PInf)"
| "js_div PInf PInf = NaN"
| "js_div PInf NInf = NaN"
| "js_div NInf PInf = NaN"
| "js_div NInf NInf = NaN"

text \<open>
  Truthiness, as the operator \<open>||\<close> tests it: among numbers \<open>0\<close> and NaN are falsy, among
  strings the empty string is, and \<open>undefined\<close> (a missing property, \<open>None\<close> here) is.
\<close>

fun truthy_num :: "jsnum \<Rightarrow> bool" where
  "truthy_num (Fin a) = (a \<noteq> 0)"
| "truthy_num NaN = False"
| "truthy_num PInf = True"
| "truthy_num NInf = True"

text \<open>\<open>a || d\<close> for a number-valued property \<open>a\<close> that may be missing.\<close>

definition or_num :: "jsnum option \<Rightarrow> jsnum \<Rightarrow> jsnum" where
  "or_num a d = (case a of None \<Rightarrow> d | Some v \<Rightarrow> if truthy_num v then v else d)"

text \<open>\<open>a || d\<close> for a string-valued property \<open>a\<close> that may be missing.\<close>

definition or_str :: "string option \<Rightarrow> string \<Rightarrow> string" where
  "or_str a d = (case a of None \<Rightarrow> d | Some v \<Rightarrow> if v \<noteq> [] then v else d)"

text \<open>\<open>a || []\<close> for an array-valued property: every array, also the empty one, is truthy.\<close>

definition or_list :: "'a list option \<Rightarrow> 'a list" where
  "or_list a = (case a of None \<Rightarrow> [] | Some xs \<Rightarrow> xs)"

text \<open>\<open>Array.prototype.join\<close> on an array of strings.\<close>

fun js_join :: "string \<Rightarrow> string list \<Rightarrow> string" where
  "js_join sep [] = []"
| "js_join sep [x] = x"
| "js_join sep (x # y # ys) = x @ sep @ js_join sep (y # ys)"

section \<open>The JSON records the dashboard receives\<close>

record location =
  lat :: jsnum
  lng :: jsnum

text \<open>An entry of \<open>/hospitals\<close>; \<open>hid\<close> is the property \<open>id\<close>, \<open>hospital_type\<close> is \<open>type\<close>.\<close>

record hospital =
  hid :: string
  name :: string
  hospital_type :: string
  capacity :: jsnum
  current_patients :: jsnum
  icu_beds :: jsnum
  icu_occupied :: jsnum
  ventilators :: jsnum
  ventilators_in_use :: jsnum
  location :: location

text \<open>
  An entry of \<open>predictions\<close> in \<open>/surge\<close>. The properties the dashboard reads behind
  \<open>||\<close> may be missing.
\<close>

record prediction =
  hospital_id :: string
  hospital_name :: string
  predicted_surge :: "jsnum option"
  risk_level :: "string option"
  surge_factors :: "string list option"

record surge_data =
  predictions :: "prediction list option"

section \<open>Risk tiers (dashboard.js, getRiskLevel and getLoadColor)\<close>

definition getRiskLevel :: "jsnum \<Rightarrow> string" where
  "getRiskLevel load =
     (if js_ge load (Fin 90) then ''critical''
      else if js_ge load (Fin 70) then ''high''
      else if js_ge load (Fin 50) then ''medium''
      else ''low'')"

definition getLoadColor :: "string \<Rightarrow> string" where
  "getLoadColor riskLevel =
     (if riskLevel = ''critical'' then ''#dc2626''
      else if riskLevel = ''high'' then ''#ef4444''
      else if riskLevel = ''medium'' then ''#f59e0b''
      else if riskLevel = ''low'' then ''#22c55e''
      else ''#64748b'')"

section \<open>What updateMap shows for one hospital (dashboard.js, lines 72-156)\<close>

text \<open>
  \<open>predictionMap\<close> is filled by a \<open>forEach\<close> over the predictions: a later prediction
  with the same \<open>hospital_id\<close> replaces an earlier one. The object is modelled as a finite
  map from keys to predictions.
\<close>

definition predictionMap :: "prediction list \<Rightarrow> (string \<rightharpoonup> prediction)" where
  "predictionMap ps = fold (\<lambda>p m. m(hospital_id p \<mapsto> p)) ps Map.empty"

text \<open>
  \<open>const prediction = predictionMap[hospital.id] || {}\<close>: \<open>None\<close> stands for the empty
  object, all of whose properties are \<open>undefined\<close>.
\<close>

definition prediction_surge :: "prediction option \<Rightarrow> jsnum option" where
  "prediction_surge pr = (case pr of None \<Rightarrow> None | Some p \<Rightarrow> predicted_surge p)"

definition prediction_risk :: "prediction option \<Rightarrow> string option" where
  "prediction_risk pr = (case pr of None \<Rightarrow> None | Some p \<Rightarrow> risk_level p)"

text \<open>\<open>(hospital.current_patients / hospital.capacity) * 100\<close>\<close>

definition occupancy_load :: "hospital \<Rightarrow> jsnum" where
  "occupancy_load h = js_mul (js_div (current_patients h) (capacity h)) (Fin 100)"

text \<open>\<open>const load = prediction.predicted_surge || (...)\<close>\<close>

definition map_load :: "(string \<rightharpoonup> prediction) \<Rightarrow> hospital \<Rightarrow> jsnum" where
  "map_load pm h = or_num (prediction_surge (pm (hid h))) (occupancy_load h)"

text \<open>\<open>const riskLevel = prediction.risk_level || getRiskLevel(load)\<close>\<close>

definition map_riskLevel :: "(string \<rightharpoonup> prediction) \<Rightarrow> hospital \<Rightarrow> string" where
  "map_riskLevel pm h = or_str (prediction_risk (pm (hid h))) (getRiskLevel (map_load pm h))"

text \<open>
  The two Leaflet layers built for a hospital. A circle keeps its centre, radius and
  colour (\<open>fillColor\<close> and \<open>color\<close> are the same value; the other options are constants).
  A marker keeps its position, the colour of its icon and the values interpolated into
  the popup; \<open>popup_load\<close> is the number that \<open>toFixed(1)\<close> prints.
\<close>

record circle =
  circle_at :: location
  radius :: jsnum
  circle_color :: string

record marker =
  marker_at :: location
  icon_color :: string
  popup_name :: string
  popup_type :: string
  popup_capacity :: jsnum
  popup_current_patients :: jsnum
  popup_load :: jsnum
  popup_icu :: "jsnum \<times> jsnum"
  popup_ventilators :: "jsnum \<times> jsnum"
  popup_riskLevel :: string

definition surgeCircle_of :: "(string \<rightharpoonup> prediction) \<Rightarrow> hospital \<Rightarrow> circle" where
  "surgeCircle_of pm h =
     \<lparr>circle_at = location h,
      radius = js_add (Fin 800) (js_mul (map_load pm h) (Fin 5)),
      circle_color = getLoadColor (map_riskLevel pm h)\<rparr>"

definition marker_of :: "(string \<rightharpoonup> prediction) \<Rightarrow> hospital \<Rightarrow> marker" where
  "marker_of pm h =
     \<lparr>marker_at = location h,
      icon_color = getLoadColor (map_riskLevel pm h),
      popup_name = name h,
      popup_type = hospital_type h,
      popup_capacity = capacity h,
      popup_current_patients = current_patients h,
      popup_load = map_load pm h,
      popup_icu = (icu_occupied h, icu_beds h),
      popup_ventilators = (ventilators_in_use h, ventilators h),
      popup_riskLevel = map_riskLevel pm h\<rparr>"

section \<open>The hospital cards (dashboard.js, updateHospitalsList)\<close>

text \<open>\<open>(p.surge_factors || []).join(', ') || 'Normal'\<close>\<close>

definition factors_text :: "prediction \<Rightarrow> string" where
  "factors_text p =
     (let joined = js_join '', '' (or_list (surge_factors p))
      in if joined \<noteq> [] then joined else ''Normal'')"

section \<open>The page state the dashboard writes\<close>

datatype js_error = TypeError

record card =
  card_riskLevel :: string
  card_name :: string
  card_factors :: string
  card_load :: jsnum

datatype hospitals_html = NoHospitalData | HospitalCards "card list"

datatype icon = Siren | Warning | Info | Ambulance | Arrow

record alert =
  level :: string
  title :: string
  message :: string

record transfer_source =
  source_name :: string
  source_predicted_surge :: "jsnum option"
  source_current_load :: "jsnum option"

record transfer_target =
  target_name :: string
  available_beds :: jsnum

record transfer =
  priority :: string
  from_hospital :: transfer_source
  to_hospital :: transfer_target
  patients_to_transfer :: jsnum
  distance_km :: jsnum

record balance_data =
  alerts :: "alert list option"
  transfer_recommendations :: "transfer list option"
  action_items :: "string list option"

datatype fragment =
    AlertCard string icon string string
  | TransfersHeading
  | TransferCard icon string string "jsnum option" string jsnum jsnum jsnum
  | ActionItemsHeading
  | ActionItemsOpen
  | ActionItem string
  | ActionItemsClose
  | AllClear

record dom =
  hospitalCount :: nat
  hospitalsContent :: hospitals_html
  alertCount :: nat
  recommendationsContent :: "fragment list"

section \<open>The recommendations panel (dashboard.js, updateRecommendations)\<close>

text \<open>
  \<open>html\<close> is kept as the list of the pieces appended to it. Every piece is a template with
  literal text, so the string is empty exactly when no piece was appended. A number
  assigned to \<open>textContent\<close> is kept as the number.
\<close>

text \<open>\<open>a?.length || 0\<close>\<close>

definition length_or_zero :: "'a list option \<Rightarrow> nat" where
  "length_or_zero a = (case a of None \<Rightarrow> 0 | Some xs \<Rightarrow> if length xs \<noteq> 0 then length xs else 0)"

text \<open>\<open>a?.length\<close> as a condition\<close>

definition has_length :: "'a list option \<Rightarrow> bool" where
  "has_length a = (case a of None \<Rightarrow> False | Some xs \<Rightarrow> length xs \<noteq> 0)"

definition alert_card :: "alert \<Rightarrow> fragment" where
  "alert_card a =
     (let alertClass = (if level a = ''critical'' then ''critical''
                        else if level a = ''warning'' then ''warning'' else ''info'');
          icon = (if level a = ''critical'' then Siren
                  else if level a = ''warning'' then Warning else Info)
      in AlertCard alertClass icon (title a) (message a))"

definition transfer_card :: "transfer \<Rightarrow> fragment" where
  "transfer_card t =
     TransferCard (if priority t = ''urgent'' then Ambulance else Arrow)
       (priority t)
       (source_name (from_hospital t))
       (case source_predicted_surge (from_hospital t) of
          Some v \<Rightarrow> Some v
        | None \<Rightarrow> source_current_load (from_hospital t))
       (target_name (to_hospital t))
       (available_beds (to_hospital t))
       (patients_to_transfer t)
       (distance_km t)"

definition updateRecommendations :: "balance_data \<Rightarrow> dom \<Rightarrow> dom" where
  "updateRecommendations balanceData d =
     (let count = length_or_zero (alerts balanceData)
                  + length_or_zero (transfer_recommendations balanceData);
          d1 = d\<lparr>alertCount := count\<rparr>;
          html0 = [];
          html1 = (if has_length (alerts balanceData)
                   then html0 @ map alert_card (or_list (alerts balanceData)) else html0);
          html2 = (if has_length (transfer_recommendations balanceData)
                   then html1 @ [TransfersHeading]
                        @ map transfer_card (or_list (transfer_recommendations balanceData))
                   else html1);
          html3 = (if has_length (action_items balanceData)
                   then html2 @ [ActionItemsHeading] @ [ActionItemsOpen]
                        @ map ActionItem (or_list (action_items balanceData))
                        @ [ActionItemsClose]
                   else html2);
          html4 = (if html3 = [] then [AllClear] else html3)
      in d1\<lparr>recommendationsContent := html4\<rparr>)"

text \<open>The number of entries of a list of the balance result; a missing list has none.\<close>

definition number_of :: "'a list option \<Rightarrow> nat" where
  "number_of a = (case a of None \<Rightarrow> 0 | Some xs \<Rightarrow> length xs)"

section \<open>Sorting and rendering the cards (dashboard.js, lines 160-186)\<close>

text \<open>ToNumber of the property: a missing property is \<open>undefined\<close>, which converts to NaN.\<close>

definition surge_num :: "prediction \<Rightarrow> jsnum" where
  "surge_num p = (case predicted_surge p of None \<Rightarrow> NaN | Some v \<Rightarrow> v)"

text \<open>The comparator \<open>(a, b) => b.predicted_surge - a.predicted_surge\<close>.\<close>

definition by_surge_desc :: "prediction \<Rightarrow> prediction \<Rightarrow> jsnum" where
  "by_surge_desc a b = js_sub (surge_num b) (surge_num a)"

text \<open>
  \<open>Array.prototype.sort\<close> with a comparator. The comparator's result \<open>v\<close> puts its first
  argument first when \<open>v < 0\<close>; a result of 0 or NaN leaves the two in their order (the sort
  is stable). For a consistent comparator every conforming engine returns this list; for an
  inconsistent one (a NaN among the keys) the order is implementation-defined, and the
  statements below exclude it.
\<close>

fun js_insert :: "('a \<Rightarrow> 'a \<Rightarrow> jsnum) \<Rightarrow> 'a \<Rightarrow> 'a list \<Rightarrow> 'a list" where
  "js_insert cmp x [] = [x]"
| "js_insert cmp x (y # ys) =
     (if js_lt (cmp y x) (Fin 0) then y # js_insert cmp x ys else x # y # ys)"

definition js_sort :: "('a \<Rightarrow> 'a \<Rightarrow> jsnum) \<Rightarrow> 'a list \<Rightarrow> 'a list" where
  "js_sort cmp xs = foldr (js_insert cmp) xs []"

text \<open>
  The template of one card. \<open>card_load\<close> is the number that \<open>toFixed(0)\<close> prints; calling
  \<open>toFixed\<close> on a missing \<open>predicted_surge\<close> throws a TypeError.
\<close>

definition card_of :: "prediction \<Rightarrow> js_error + card" where
  "card_of p =
     (let riskLevel = or_str (risk_level p) (getRiskLevel (surge_num p))
      in case predicted_surge p of
           None \<Rightarrow> Inl TypeError
         | Some v \<Rightarrow>
             Inr \<lparr>card_riskLevel = riskLevel, card_name = hospital_name p,
                  card_factors = factors_text p, card_load = v\<rparr>)"

fun cards_of :: "prediction list \<Rightarrow> js_error + card list" where
  "cards_of [] = Inr []"
| "cards_of (p # ps) =
     (case card_of p of
        Inl e \<Rightarrow> Inl e
      | Inr c \<Rightarrow> (case cards_of ps of Inl e \<Rightarrow> Inl e | Inr cs \<Rightarrow> Inr (c # cs)))"

text \<open>
  The arrays of the page, by reference: \<open>updateHospitalsList\<close> receives a reference to the
  caller's array and sorts that array. The function returns the arrays and the page as it
  leaves them, and the exception it throws, if any.
\<close>

type_synonym heap = "nat \<Rightarrow> prediction list"

definition updateHospitalsList :: "nat \<Rightarrow> heap \<times> dom \<Rightarrow> (heap \<times> dom) \<times> js_error option" where
  "updateHospitalsList ref st =
     (case st of (arrays, d) \<Rightarrow>
        let d1 = d\<lparr>hospitalCount := length (arrays ref)\<rparr>
        in if length (arrays ref) = 0
           then ((arrays, d1\<lparr>hospitalsContent := NoHospitalData\<rparr>), None)
           else
             let arrays1 = arrays(ref := js_sort by_surge_desc (arrays ref))
             in case cards_of (arrays1 ref) of
                  Inl e \<Rightarrow> ((arrays1, d1), Some e)
                | Inr cs \<Rightarrow> ((arrays1, d1\<lparr>hospitalsContent := HospitalCards cs\<rparr>), None))"

text \<open>A prediction that carries a number other than NaN as its \<open>predicted_surge\<close>.\<close>

definition numeric_surge :: "prediction \<Rightarrow> bool" where
  "numeric_surge p = (case predicted_surge p of None \<Rightarrow> False | Some v \<Rightarrow> v \<noteq> NaN)"

definition surge_ge :: "prediction \<Rightarrow> prediction \<Rightarrow> bool" where
  "surge_ge p q = js_ge (surge_num p) (surge_num q)"

section \<open>The map (dashboard.js, initMap and updateMap)\<close>

text \<open>
  Leaflet is an external library. A layer object is identified by the stamp Leaflet gives
  it when it is created; the map holds the layers added to it and not removed since, in
  the order of their addition. \<open>map.removeLayer\<close> takes a layer off the map and does
  nothing for a layer that is not on it. Whether \<open>L.circle\<close> and \<open>L.marker\<close> accept their
  arguments or throw is the library's: \<open>circle_accepted\<close> and \<open>marker_accepted\<close>.
\<close>

datatype layer = TileLayer | CircleLayer circle | MarkerLayer marker

record leaflet =
  circle_accepted :: "circle \<Rightarrow> bool"
  marker_accepted :: "marker \<Rightarrow> bool"

record map_state =
  map_layers :: "(nat \<times> layer) list"
  next_stamp :: nat
  hospitalMarkers :: "nat list"
  surgeCircles :: "nat list"

definition removeLayer :: "nat \<Rightarrow> map_state \<Rightarrow> map_state" where
  "removeLayer l s = s\<lparr>map_layers := filter (\<lambda>e. fst e \<noteq> l) (map_layers s)\<rparr>"

text \<open>Creating a layer and adding it to the map; the new layer's stamp is returned.\<close>

definition addTo_map :: "layer \<Rightarrow> map_state \<Rightarrow> nat \<times> map_state" where
  "addTo_map l s =
     (next_stamp s,
      s\<lparr>map_layers := map_layers s @ [(next_stamp s, l)], next_stamp := Suc (next_stamp s)\<rparr>)"

definition initMap :: map_state where
  "initMap = \<lparr>map_layers = [(0, TileLayer)], next_stamp = 1,
     hospitalMarkers = [], surgeCircles = []\<rparr>"

datatype map_error = LeafletError

text \<open>The body of \<open>hospitals.forEach\<close> for one hospital (lines 79-156).\<close>

definition add_hospital ::
  "leaflet \<Rightarrow> (string \<rightharpoonup> prediction) \<Rightarrow> hospital \<Rightarrow> map_state \<Rightarrow> map_state \<times> map_error option" where
  "add_hospital lib pm h s =
     (if \<not> circle_accepted lib (surgeCircle_of pm h) then (s, Some LeafletError)
      else
        let (surgeCircle, s1) = addTo_map (CircleLayer (surgeCircle_of pm h)) s;
            s2 = s1\<lparr>surgeCircles := surgeCircles s1 @ [surgeCircle]\<rparr>
        in if \<not> marker_accepted lib (marker_of pm h) then (s2, Some LeafletError)
           else
             let (marker, s3) = addTo_map (MarkerLayer (marker_of pm h)) s2
             in (s3\<lparr>hospitalMarkers := hospitalMarkers s3 @ [marker]\<rparr>, None))"

fun add_hospitals ::
  "leaflet \<Rightarrow> (string \<rightharpoonup> prediction) \<Rightarrow> hospital list \<Rightarrow> map_state \<Rightarrow> map_state \<times> map_error option" where
  "add_hospitals lib pm [] s = (s, None)"
| "add_hospitals lib pm (h # hs) s =
     (case add_hospital lib pm h s of
        (s', Some e) \<Rightarrow> (s', Some e)
      | (s', None) \<Rightarrow> add_hospitals lib pm hs s')"

definition updateMap ::
  "leaflet \<Rightarrow> hospital list \<Rightarrow> surge_data \<Rightarrow> map_state \<Rightarrow> map_state \<times> map_error option" where
  "updateMap lib hospitals surgeData s =
     (let s1 = fold removeLayer (hospitalMarkers s) s;
          s2 = fold removeLayer (surgeCircles s1) s1;
          s3 = s2\<lparr>hospitalMarkers := [], surgeCircles := []\<rparr>;
          pm = predictionMap (or_list (predictions surgeData))
      in add_hospitals lib pm hospitals s3)"

text \<open>
  Leaflet as it is: \<open>L.circle\<close> throws ("Circle radius cannot be NaN") when the radius it is
  given is NaN, and builds the layer otherwise.
\<close>

definition leaflet_strict :: leaflet where
  "leaflet_strict = \<lparr>circle_accepted = (\<lambda>c. radius c \<noteq> NaN), marker_accepted = (\<lambda>m. True)\<rparr>"

section \<open>The surge predictor, from the specification\<close>

text \<open>
  The backend (\<open>predictor.py\<close>, \<open>load_balancer.py\<close>) is not among the source files of the
  repository. Its two components are modelled from sections 3, 4.1, 4.2 and 9 of the
  specification. Scores are real numbers, bed and patient counts are integers.
\<close>

text \<open>Modelled from the spec: the Hospital record of section 3, as the backend holds it.\<close>

record bed_hospital =
  ident :: string
  display_name :: string
  zone :: string
  bed_capacity :: int
  occupied :: int
  coordinate :: "real \<times> real"

text \<open>Modelled from the spec: the Event record of section 3, for an active event.\<close>

record event =
  event_name :: string
  event_zone :: string
  magnitude :: real

text \<open>
  Modelled from the spec: the inputs of \<open>predict\<close> (section 4.1) besides the hospitals; the
  inflow history of a hospital is its trailing sequence of hourly counts, latest last.
\<close>

record signals =
  pollutionByZone :: "(string \<times> real) list"
  activeEvents :: "event list"
  recentInflowByHospital :: "(string \<times> real list) list"

text \<open>
  Modelled from the spec: the numeric coefficients of the adjustments, which section 9
  leaves as configurable constants of the missing predictor.
\<close>

record predictor_config =
  aqi_threshold :: real
  pollution_rate :: real
  pollution_cap :: real
  event_rate :: real
  event_cap :: real
  inflow_threshold :: real
  inflow_rate :: real
  inflow_cap :: real
  recent_window :: nat

text \<open>Modelled from the spec: the contributing factors of section 4.1, steps 2-4 and the
  free-text factors of an external reply.\<close>

datatype factor = HighPollution real | NearbyEvent string | RisingInflow | Reported string

text \<open>Modelled from the spec: the risk tiers of the missing predictor (section 4.1, step 6).\<close>

datatype tier = Low | Medium | High | Critical

text \<open>
  Modelled from the spec: clamping a score of the missing predictor to [0,100], as steps 1
  and 5 of section 4.1 do.
\<close>

definition clamp_score :: "real \<Rightarrow> real" where
  "clamp_score x = (if x < 0 then 0 else if 100 < x then 100 else x)"

text \<open>
  Modelled from the spec: step 1 of the missing predictor, \<open>current_patients / capacity * 100\<close>
  clamped to [0,100]. The spec gives no base term for a hospital without capacity; it is
  taken as 0.
\<close>

definition base_occupancy :: "bed_hospital \<Rightarrow> real" where
  "base_occupancy h =
     (if bed_capacity h = 0 then 0
      else clamp_score (real_of_int (occupied h) / real_of_int (bed_capacity h) * 100))"

text \<open>
  Modelled from the spec: step 2 of the missing predictor, a bonus proportional to
  \<open>AQI - threshold\<close>, capped, with its factor; no reading for the zone is no adjustment.
\<close>

definition pollution_adjustment :: "predictor_config \<Rightarrow> real option \<Rightarrow> real \<times> factor list" where
  "pollution_adjustment cfg reading =
     (case reading of
        None \<Rightarrow> (0, [])
      | Some aqi \<Rightarrow>
          if aqi_threshold cfg \<le> aqi
          then (min (pollution_cap cfg) (pollution_rate cfg * (aqi - aqi_threshold cfg)),
                [HighPollution aqi])
          else (0, []))"

text \<open>
  Modelled from the spec: step 3 of the missing predictor, a capped bonus scaled by the
  magnitude of each active event of the hospital's zone, one factor per event.
\<close>

definition event_adjustment :: "predictor_config \<Rightarrow> event list \<Rightarrow> string \<Rightarrow> real \<times> factor list" where
  "event_adjustment cfg events z =
     (let nearby = filter (\<lambda>e. event_zone e = z) events
      in if nearby = [] then (0, [])
         else (min (event_cap cfg) (sum_list (map (\<lambda>e. event_rate cfg * magnitude e) nearby)),
               map (\<lambda>e. NearbyEvent (event_name e)) nearby))"

text \<open>Modelled from the spec: the average of an inflow window of the missing predictor.\<close>

definition mean :: "real list \<Rightarrow> real option" where
  "mean xs = (if xs = [] then None else Some (sum_list xs / real (length xs)))"

text \<open>
  Modelled from the spec: step 4 of the missing predictor, the recent window's average
  against the trailing baseline; a bonus proportional to the excess ratio, capped, when
  the excess is above the relative threshold.
\<close>

definition inflow_adjustment :: "predictor_config \<Rightarrow> real list option \<Rightarrow> real \<times> factor list" where
  "inflow_adjustment cfg history =
     (case history of
        None \<Rightarrow> (0, [])
      | Some counts \<Rightarrow>
          (case (mean (drop (length counts - recent_window cfg) counts), mean counts) of
             (Some recent, Some baseline) \<Rightarrow>
               if 0 < baseline \<and> baseline * (1 + inflow_threshold cfg) < recent
               then (min (inflow_cap cfg) (inflow_rate cfg * (recent / baseline - 1)),
                     [RisingInflow])
               else (0, [])
           | _ \<Rightarrow> (0, [])))"

text \<open>
  Modelled from the spec: steps 5 and 7 of the missing predictor, the sum of the base
  term and the adjustments clamped to [0,100], and the factors in the order pollution,
  events, inflow trend.
\<close>

definition rule_score :: "predictor_config \<Rightarrow> signals \<Rightarrow> bed_hospital \<Rightarrow> real \<times> factor list" where
  "rule_score cfg inp h =
     (let (p, pf) = pollution_adjustment cfg (map_of (pollutionByZone inp) (zone h));
          (e, ef) = event_adjustment cfg (activeEvents inp) (zone h);
          (i, nf) = inflow_adjustment cfg (map_of (recentInflowByHospital inp) (ident h))
      in (clamp_score (base_occupancy h + p + e + i), pf @ ef @ nf))"

text \<open>Modelled from the spec: step 6 of the missing predictor, the tier of a score.\<close>

definition risk_tier :: "real \<Rightarrow> tier" where
  "risk_tier score =
     (if 90 \<le> score then Critical
      else if 70 \<le> score then High
      else if 50 \<le> score then Medium
      else Low)"

text \<open>
  Modelled from the spec: the two scoring strategies of section 9. The external provider
  is whatever answers the request: a reply with a score and factors, or a failure.
\<close>

datatype scorer =
    RuleBasedScorer
  | ExternalScorer "signals \<Rightarrow> bed_hospital \<Rightarrow> (real \<times> string list) option"

text \<open>
  Modelled from the spec: the score of one hospital under a strategy of the missing
  predictor; an external reply goes through the same clamping, a failure falls back to the
  rule-based score.
\<close>

definition score_with :: "scorer \<Rightarrow> predictor_config \<Rightarrow> signals \<Rightarrow> bed_hospital \<Rightarrow> real \<times> factor list" where
  "score_with sc cfg inp h =
     (case sc of
        RuleBasedScorer \<Rightarrow> rule_score cfg inp h
      | ExternalScorer ask \<Rightarrow>
          (case ask inp h of
             None \<Rightarrow> rule_score cfg inp h
           | Some (score, factors) \<Rightarrow> (clamp_score score, map Reported factors)))"

text \<open>Modelled from the spec: the SurgePrediction record of section 3.\<close>

record surge_prediction =
  for_hospital :: string
  for_name :: string
  surge :: real
  risk :: tier
  factors :: "factor list"

text \<open>Modelled from the spec: the CitySummary record of section 3.\<close>

record city_summary =
  overall_occupancy :: real
  overall_risk :: tier
  average_aqi :: real
  active_events :: nat
  recommendations :: "string list"

text \<open>Modelled from the spec: the prediction the missing predictor emits for one hospital.\<close>

definition predict_one :: "scorer \<Rightarrow> predictor_config \<Rightarrow> signals \<Rightarrow> bed_hospital \<Rightarrow> surge_prediction" where
  "predict_one sc cfg inp h =
     (let (score, fs) = score_with sc cfg inp h
      in \<lparr>for_hospital = ident h, for_name = display_name h, surge = score,
          risk = risk_tier score, factors = fs\<rparr>)"

text \<open>Modelled from the spec: the order of the tiers, \<open>critical > high > medium > low\<close>.\<close>

fun tier_rank :: "tier \<Rightarrow> nat" where
  "tier_rank Low = 0"
| "tier_rank Medium = 1"
| "tier_rank High = 2"
| "tier_rank Critical = 3"

text \<open>Modelled from the spec: the highest tier present among the predictions.\<close>

definition highest_tier :: "surge_prediction list \<Rightarrow> tier" where
  "highest_tier ps = fold (\<lambda>p t. if tier_rank t < tier_rank (risk p) then risk p else t) ps Low"

text \<open>
  Modelled from the spec: the city summary derivation of section 4.1, with the two
  recommendation rules the spec names.
\<close>

definition summarize :: "predictor_config \<Rightarrow> signals \<Rightarrow> bed_hospital list \<Rightarrow> surge_prediction list \<Rightarrow> city_summary" where
  "summarize cfg inp hs ps =
     (let total_capacity = sum_list (map bed_capacity hs);
          total_occupied = sum_list (map occupied hs);
          aqi = (case mean (map snd (pollutionByZone inp)) of None \<Rightarrow> 0 | Some m \<Rightarrow> m)
      in \<lparr>overall_occupancy =
            (if total_capacity = 0 then 0
             else real_of_int total_occupied / real_of_int total_capacity * 100),
          overall_risk = highest_tier ps,
          average_aqi = aqi,
          active_events = length (activeEvents inp),
          recommendations =
            (if list_ex (\<lambda>p. risk p = Critical) ps then [''Prepare additional ICU capacity''] else [])
            @ (if aqi_threshold cfg < aqi then [''Monitor air quality trend''] else [])\<rparr>)"

text \<open>Modelled from the spec: the result of \<open>predict\<close>, one prediction per input hospital.\<close>

record surge_result =
  result_predictions :: "surge_prediction list"
  result_summary :: city_summary

text \<open>Modelled from the spec: the contract \<open>predict\<close> of section 4.1.\<close>

definition predict :: "scorer \<Rightarrow> predictor_config \<Rightarrow> signals \<Rightarrow> bed_hospital list \<Rightarrow> surge_result" where
  "predict sc cfg inp hs =
     (let ps = map (predict_one sc cfg inp) hs
      in \<lparr>result_predictions = ps, result_summary = summarize cfg inp hs ps\<rparr>)"

section \<open>The load balancer, from the specification\<close>

text \<open>
  Modelled from the spec: the fixed overload threshold of the missing balancer (section
  4.2), in percent.
\<close>

definition overload_threshold :: real where
  "overload_threshold = 85"

text \<open>
  Modelled from the spec: the fixed underutilization threshold of the missing balancer
  (section 4.2), in percent.
\<close>

definition underutilized_threshold :: real where
  "underutilized_threshold = 60"

text \<open>Modelled from the spec: the free beds of a hospital, as the missing balancer counts them.\<close>

definition free_beds :: "bed_hospital \<Rightarrow> int" where
  "free_beds h = bed_capacity h - occupied h"

text \<open>
  Modelled from the spec: the load the missing balancer classifies a hospital by, its
  predicted surge, or its current occupancy percentage if no prediction exists; a hospital
  without prediction and without capacity has no usable signal.
\<close>

definition load_signal :: "surge_prediction list \<Rightarrow> bed_hospital \<Rightarrow> real option" where
  "load_signal ps h =
     (case find (\<lambda>p. for_hospital p = ident h) ps of
        Some p \<Rightarrow> Some (surge p)
      | None \<Rightarrow>
          if bed_capacity h = 0 then None
          else Some (real_of_int (occupied h) / real_of_int (bed_capacity h) * 100))"

text \<open>Modelled from the spec: the classes of the missing balancer; a hospital without usable
  signal is left out.\<close>

datatype utilization = Overloaded | Underutilized | Normal | Excluded

text \<open>
  Modelled from the spec: the classification of section 4.2; overloaded if the load
  exceeds 85, underutilized if it is below 60 and the hospital has at least one free bed,
  the overload check first.
\<close>

definition classify :: "surge_prediction list \<Rightarrow> bed_hospital \<Rightarrow> utilization" where
  "classify ps h =
     (case load_signal ps h of
        None \<Rightarrow> Excluded
      | Some load \<Rightarrow>
          if overload_threshold < load then Overloaded
          else if load < underutilized_threshold \<and> 1 \<le> free_beds h then Underutilized
          else Normal)"

text \<open>
  Modelled from the spec: the constants of the matching the spec leaves open, the
  proximity bound, the per-transfer cap and the straight-line distance between two
  coordinates.
\<close>

record balancer_config =
  max_distance :: real
  per_transfer_cap :: int
  distance :: "real \<times> real \<Rightarrow> real \<times> real \<Rightarrow> real"

text \<open>Modelled from the spec: the priority tag of a transfer.\<close>

datatype urgency = Urgent | Routine

text \<open>Modelled from the spec: the TransferRecommendation record of section 3.\<close>

record transfer_recommendation =
  source :: string
  source_load :: real
  destination :: string
  destination_available :: int
  quantity :: int
  distance_between :: real
  urgency :: urgency

text \<open>
  Modelled from the spec: the surplus patients implied by exceeding the overload
  threshold, the share of the capacity by which the load is above 85 percent.
\<close>

definition implied_surplus :: "bed_hospital \<Rightarrow> real \<Rightarrow> real" where
  "implied_surplus h load = (load - overload_threshold) / 100 * real_of_int (bed_capacity h)"

text \<open>
  Modelled from the spec: step 4 of the matching, the whole number of patients within the
  minimum of the surplus, the destination's remaining beds and the per-transfer cap.
\<close>

definition transfer_quantity :: "balancer_config \<Rightarrow> bed_hospital \<Rightarrow> real \<Rightarrow> int \<Rightarrow> int" where
  "transfer_quantity cfg h load remaining =
     \<lfloor>min (min (implied_surplus h load) (real_of_int remaining)) (real_of_int (per_transfer_cap cfg))\<rfloor>"

text \<open>
  Modelled from the spec: steps 3 to 7 of the matching for one overloaded hospital. The
  underutilized hospitals are scanned in order, each with its remaining-bed counter; the
  first with remaining beds and within the proximity bound receives the transfer and its
  counter is decremented; if none qualifies there is no transfer.
\<close>

fun assign ::
  "balancer_config \<Rightarrow> bed_hospital \<times> real \<Rightarrow> (bed_hospital \<times> int) list
     \<Rightarrow> transfer_recommendation option \<times> (bed_hospital \<times> int) list" where
  "assign cfg src [] = (None, [])"
| "assign cfg src ((u, remaining) # rest) =
     (if 0 < remaining
         \<and> distance cfg (coordinate (fst src)) (coordinate u) \<le> max_distance cfg
      then
        let q = transfer_quantity cfg (fst src) (snd src) remaining
        in (Some \<lparr>source = ident (fst src), source_load = snd src,
                  destination = ident u, destination_available = remaining,
                  quantity = q,
                  distance_between = distance cfg (coordinate (fst src)) (coordinate u),
                  urgency = (if risk_tier (snd src) = Critical then Urgent else Routine)\<rparr>,
            (u, remaining - q) # rest)
      else
        let (t, rest') = assign cfg src rest
        in (t, (u, remaining) # rest'))"

text \<open>Modelled from the spec: the matching over the overloaded hospitals in order, each
  seeing the counters as the earlier transfers left them.\<close>

fun match_all ::
  "balancer_config \<Rightarrow> (bed_hospital \<times> real) list \<Rightarrow> (bed_hospital \<times> int) list
     \<Rightarrow> transfer_recommendation list \<times> (bed_hospital \<times> int) list" where
  "match_all cfg [] counters = ([], counters)"
| "match_all cfg (src # srcs) counters =
     (case assign cfg src counters of
        (None, counters') \<Rightarrow> match_all cfg srcs counters'
      | (Some t, counters') \<Rightarrow>
          let (ts, final) = match_all cfg srcs counters'
          in (t # ts, final))"

text \<open>
  Modelled from the spec: step 1 of the matching, the overloaded hospitals with their
  loads by descending load, ties by identifier.
\<close>

definition overloaded_in_order :: "surge_prediction list \<Rightarrow> bed_hospital list \<Rightarrow> (bed_hospital \<times> real) list" where
  "overloaded_in_order ps hs =
     sort_key (\<lambda>(h, load). (- load, ident h))
       (concat (map (\<lambda>h. case load_signal ps h of
                            None \<Rightarrow> []
                          | Some load \<Rightarrow> if classify ps h = Overloaded then [(h, load)] else []) hs))"

text \<open>
  Modelled from the spec: step 2 of the matching, the underutilized hospitals by
  descending available beds, ties by identifier, each with its working counter of
  remaining beds.
\<close>

definition underutilized_in_order :: "surge_prediction list \<Rightarrow> bed_hospital list \<Rightarrow> (bed_hospital \<times> int) list" where
  "underutilized_in_order ps hs =
     map (\<lambda>h. (h, free_beds h))
       (sort_key (\<lambda>h. (- free_beds h, ident h)) (filter (\<lambda>h. classify ps h = Underutilized) hs))"

text \<open>
  Modelled from the spec: one run of the missing balancer, its transfer recommendations
  and the remaining-bed counters it ends with.
\<close>

definition balance_transfers ::
  "balancer_config \<Rightarrow> bed_hospital list \<Rightarrow> surge_prediction list
     \<Rightarrow> transfer_recommendation list \<times> (bed_hospital \<times> int) list" where
  "balance_transfers cfg hs ps =
     match_all cfg (overloaded_in_order ps hs) (underutilized_in_order ps hs)"

text \<open>Modelled from the spec: the beds of a destination committed by a list of transfers.\<close>

definition committed :: "transfer_recommendation list \<Rightarrow> string \<Rightarrow> int" where
  "committed ts d = sum_list (map quantity (filter (\<lambda>t. destination t = d) ts))"

section \<open>Inputs at which the statements below are evaluated\<close>

definition hospital_half_full :: hospital where
  "hospital_half_full =
     \<lparr>hid = ''H1'', name = ''General'', hospital_type = ''public'',
      capacity = Fin 100, current_patients = Fin 50,
      icu_beds = Fin 10, icu_occupied = Fin 5,
      ventilators = Fin 4, ventilators_in_use = Fin 1,
      location = \<lparr>lat = Fin 28, lng = Fin 77\<rparr>\<rparr>"

definition prediction_zero :: prediction where
  "prediction_zero =
     \<lparr>hospital_id = ''H1'', hospital_name = ''General'',
      predicted_surge = Some (Fin 0), risk_level = Some ''low'',
      surge_factors = Some []\<rparr>"

definition prediction_high :: prediction where
  "prediction_high =
     \<lparr>hospital_id = ''H1'', hospital_name = ''General'',
      predicted_surge = Some (Fin 75), risk_level = Some ''high'',
      surge_factors = Some [''High pollution (AQI=250)'', ''Rising patient inflow'']\<rparr>"

definition prediction_blank_factor :: prediction where
  "prediction_blank_factor =
     \<lparr>hospital_id = ''H2'', hospital_name = ''City'',
      predicted_surge = Some (Fin 40), risk_level = Some ''low'',
      surge_factors = Some ['''']\<rparr>"

definition balance_example :: balance_data where
  "balance_example =
     \<lparr>alerts = Some [\<lparr>level = ''critical'', title = ''Overload'', message = ''General at 95%''\<rparr>],
      transfer_recommendations = Some [],
      action_items = Some [''Redirect non-emergency admissions from General'']\<rparr>"

definition balance_quiet :: balance_data where
  "balance_quiet = \<lparr>alerts = Some [], transfer_recommendations = None, action_items = Some []\<rparr>"

definition dom_initial :: dom where
  "dom_initial = \<lparr>hospitalCount = 0, hospitalsContent = NoHospitalData,
     alertCount = 0, recommendationsContent = []\<rparr>"

definition predictions_example :: "prediction list" where
  "predictions_example = [prediction_blank_factor, prediction_high, prediction_zero]"

definition surge_none :: surge_data where
  "surge_none = \<lparr>predictions = None\<rparr>"

definition hospital_closed :: hospital where
  "hospital_closed =
     \<lparr>hid = ''H9'', name = ''Annex'', hospital_type = ''clinic'',
      capacity = Fin 0, current_patients = Fin 0,
      icu_beds = Fin 0, icu_occupied = Fin 0,
      ventilators = Fin 0, ventilators_in_use = Fin 0,
      location = \<lparr>lat = Fin 28, lng = Fin 77\<rparr>\<rparr>"

definition hospital_A :: bed_hospital where
  "hospital_A = \<lparr>ident = ''A'', display_name = ''Hospital A'', zone = ''north'',
     bed_capacity = 100, occupied = 95, coordinate = (28, 77)\<rparr>"

definition hospital_B :: bed_hospital where
  "hospital_B = \<lparr>ident = ''B'', display_name = ''Hospital B'', zone = ''north'',
     bed_capacity = 100, occupied = 30, coordinate = (28, 77)\<rparr>"

definition balancer_example :: balancer_config where
  "balancer_example = \<lparr>max_distance = 25, per_transfer_cap = 20,
     distance = (\<lambda>a b. \<bar>fst a - fst b\<bar> + \<bar>snd a - snd b\<bar>)\<rparr>"

definition predictor_example :: predictor_config where
  "predictor_example = \<lparr>aqi_threshold = 200, pollution_rate = 1 / 5, pollution_cap = 20,
     event_rate = 1, event_cap = 15, inflow_threshold = 1 / 5, inflow_rate = 10,
     inflow_cap = 10, recent_window = 3\<rparr>"

definition signals_example :: signals where
  "signals_example = \<lparr>pollutionByZone = [(''north'', 250)], activeEvents = [],
     recentInflowByHospital = []\<rparr>"

section \<open>Properties\<close>

text \<open>
  Claim C1. For every JavaScript number \<open>s\<close> (NaN and the infinities included),
  \<open>getRiskLevel s\<close> is one of the four tiers, and the tier follows the fixed thresholds read
  top-down: critical exactly when \<open>s >= 90\<close>, high exactly when \<open>70 <= s < 90\<close>, medium
  exactly when \<open>50 <= s < 70\<close>, low in every other case; for a finite score the comparisons
  are the ones of the real numbers, and a score of exactly 90 is critical.
\<close>

theorem getRiskLevel_tiers:
  "getRiskLevel s \<in> {''critical'', ''high'', ''medium'', ''low''}
   \<and> (getRiskLevel s = ''critical'') = js_ge s (Fin 90)
   \<and> (getRiskLevel s = ''high'') = (js_ge s (Fin 70) \<and> js_lt s (Fin 90))
   \<and> (getRiskLevel s = ''medium'') = (js_ge s (Fin 50) \<and> js_lt s (Fin 70))
   \<and> (getRiskLevel s = ''low'') = (\<not> js_ge s (Fin 50))
   \<and> (getRiskLevel (Fin x) = ''critical'') = (90 \<le> x)
   \<and> (getRiskLevel (Fin x) = ''high'') = (70 \<le> x \<and> x < 90)
   \<and> (getRiskLevel (Fin x) = ''medium'') = (50 \<le> x \<and> x < 70)
   \<and> (getRiskLevel (Fin x) = ''low'') = (x < 50)
   \<and> getRiskLevel (Fin 90) = ''critical''
   \<and> getRiskLevel (Fin 90) \<noteq> ''high''"
  by (cases s) (auto simp: getRiskLevel_def)

lemma js_join_empty_iff:
  "js_join sep xs = [] \<longleftrightarrow> xs = [] \<or> xs = [''''] \<or> (sep = [] \<and> set xs \<subseteq> {[]})"
  by (induction sep xs rule: js_join.induct) auto

text \<open>
  Claim C3 at a prediction of 0. A prediction exists for the hospital (occupancy 50 of
  100), its \<open>predicted_surge\<close> is 0 and its \<open>risk_level\<close> is low. Line 80 reads the
  value behind \<open>||\<close>, which takes the falsy 0 for a missing one: the popup shows the
  occupancy 50, not the predicted 0, next to the prediction's tier low, although the
  tier of a load of 50 is medium. The hospital card of the same prediction (line 180)
  shows the 0. At this input every arithmetic result is a double (50 / 100 = 0.5,
  0.5 * 100 = 50), so the exact arithmetic of the model is the code's.
\<close>

theorem map_popup_zero_surge_shows_occupancy:
  "predictionMap [prediction_zero] (hid hospital_half_full) = Some prediction_zero
   \<and> predicted_surge prediction_zero = Some (Fin 0)
   \<and> risk_level prediction_zero = Some ''low''
   \<and> popup_load (marker_of (predictionMap [prediction_zero]) hospital_half_full) = Fin 50
   \<and> Fin 50 \<noteq> Fin 0
   \<and> popup_riskLevel (marker_of (predictionMap [prediction_zero]) hospital_half_full) = ''low''
   \<and> getRiskLevel (Fin 50) = ''medium''
   \<and> card_of prediction_zero
       = Inr \<lparr>card_riskLevel = ''low'', card_name = ''General'',
              card_factors = ''Normal'', card_load = Fin 0\<rparr>"
  by (simp add: predictionMap_def prediction_zero_def hospital_half_full_def marker_of_def
      map_load_def map_riskLevel_def prediction_surge_def prediction_risk_def or_num_def
      or_str_def occupancy_load_def getRiskLevel_def card_of_def factors_text_def
      or_list_def surge_num_def)

text \<open>
  Claim C6, as stated, fails: the list \<open>['']\<close> is not empty, its join is the empty
  string, and the card shows "Normal" instead of the joined factors.
\<close>

theorem factors_text_blank_counterexample:
  "surge_factors prediction_blank_factor = Some ['''']
   \<and> [''''] \<noteq> ([] :: string list)
   \<and> js_join '', '' [''''] = ''''
   \<and> factors_text prediction_blank_factor = ''Normal''
   \<and> factors_text prediction_blank_factor \<noteq> js_join '', '' ['''']"
  by (simp add: prediction_blank_factor_def factors_text_def or_list_def)

text \<open>
  Claim C6, amended. A prediction whose \<open>surge_factors\<close> is missing or empty is rendered
  "Normal"; every non-empty list other than the one-element list holding the empty
  string is rendered as its elements, in their order, separated by \<open>", "\<close>.
\<close>

theorem factors_text_normal_or_joined:
  "(surge_factors p = None \<or> surge_factors p = Some []
      \<longrightarrow> factors_text p = ''Normal'')
   \<and> (\<forall>fs. surge_factors p = Some fs \<and> fs \<noteq> [] \<and> fs \<noteq> ['''']
      \<longrightarrow> factors_text p = js_join '', '' fs)
   \<and> js_join '', '' [a] = a
   \<and> js_join '', '' (a # b # fs') = a @ '', '' @ js_join '', '' (b # fs')"
  by (auto simp: factors_text_def or_list_def Let_def js_join_empty_iff)

theorem factors_text_normal_or_joined_witness:
  "surge_factors prediction_zero = Some []
   \<and> factors_text prediction_zero = ''Normal''
   \<and> surge_factors prediction_high = Some [''High pollution (AQI=250)'', ''Rising patient inflow'']
   \<and> factors_text prediction_high = ''High pollution (AQI=250), Rising patient inflow''"
proof -
  have e: "surge_factors prediction_zero = Some []"
    by (simp add: prediction_zero_def)
  have f: "surge_factors prediction_high
      = Some [''High pollution (AQI=250)'', ''Rising patient inflow'']"
    by (simp add: prediction_high_def)
  have "factors_text prediction_zero = ''Normal''"
    using factors_text_normal_or_joined [of prediction_zero] e by simp
  moreover have "factors_text prediction_high
      = js_join '', '' [''High pollution (AQI=250)'', ''Rising patient inflow'']"
    using factors_text_normal_or_joined [of prediction_high] f by simp
  ultimately show ?thesis using e f by simp
qed

text \<open>
  Claim C9. The number \<open>updateRecommendations\<close> writes into the alert badge is the number
  of alerts plus the number of transfer recommendations of the balance result (a missing
  list counting as empty); it does not depend on the action items; and when alerts,
  transfer recommendations and action items are all empty the panel shows the all-clear
  message.
\<close>

theorem alertCount_counts_alerts_and_transfers:
  "alertCount (updateRecommendations b d)
     = number_of (alerts b) + number_of (transfer_recommendations b)
   \<and> alertCount (updateRecommendations (b\<lparr>action_items := items\<rparr>) d)
     = alertCount (updateRecommendations b d)
   \<and> (number_of (alerts b) = 0 \<and> number_of (transfer_recommendations b) = 0
        \<and> number_of (action_items b) = 0
      \<longrightarrow> recommendationsContent (updateRecommendations b d) = [AllClear])"
  by (auto simp: updateRecommendations_def length_or_zero_def has_length_def number_of_def
      Let_def split: option.splits)

theorem alertCount_counts_alerts_and_transfers_witness:
  "number_of (alerts balance_quiet) = 0
   \<and> number_of (transfer_recommendations balance_quiet) = 0
   \<and> number_of (action_items balance_quiet) = 0
   \<and> recommendationsContent (updateRecommendations balance_quiet dom_initial) = [AllClear]
   \<and> alertCount (updateRecommendations balance_quiet dom_initial) = 0
   \<and> number_of (action_items balance_example) = 1
   \<and> alertCount (updateRecommendations balance_example dom_initial) = 1"
proof -
  have quiet: "number_of (alerts balance_quiet) = 0"
      "number_of (transfer_recommendations balance_quiet) = 0"
      "number_of (action_items balance_quiet) = 0"
    by (simp_all add: balance_quiet_def number_of_def)
  have busy: "number_of (alerts balance_example) = 1"
      "number_of (transfer_recommendations balance_example) = 0"
      "number_of (action_items balance_example) = 1"
    by (simp_all add: balance_example_def number_of_def)
  show ?thesis
    using alertCount_counts_alerts_and_transfers [of balance_quiet dom_initial]
      alertCount_counts_alerts_and_transfers [of balance_example dom_initial]
      quiet busy
    by simp
qed

lemma js_sub_neg_iff:
  "a \<noteq> NaN \<Longrightarrow> b \<noteq> NaN \<Longrightarrow> js_lt (js_sub a b) (Fin 0) = js_lt a b"
  by (cases a; cases b) (auto simp: js_sub_def)

lemma js_not_lt_ge: "a \<noteq> NaN \<Longrightarrow> b \<noteq> NaN \<Longrightarrow> (\<not> js_lt a b) = js_ge a b"
  by (cases a; cases b) auto

lemma js_lt_imp_ge: "js_lt a b \<Longrightarrow> js_ge b a"
  by (cases a; cases b) auto

lemma js_ge_trans: "js_ge a b \<Longrightarrow> js_ge b c \<Longrightarrow> js_ge a c"
  by (cases a; cases b; cases c) auto

lemma set_js_insert: "set (js_insert cmp x ys) = insert x (set ys)"
  by (induction ys) auto

lemma mset_js_insert: "mset (js_insert cmp x ys) = add_mset x (mset ys)"
  by (induction ys) auto

lemma mset_js_sort: "mset (js_sort cmp xs) = mset xs"
  by (induction xs) (auto simp: js_sort_def mset_js_insert)

lemma numeric_surge_num: "numeric_surge p \<Longrightarrow> surge_num p \<noteq> NaN"
  by (auto simp: numeric_surge_def surge_num_def split: option.splits)

lemma sorted_js_insert:
  assumes "sorted_wrt surge_ge ys" "numeric_surge x" "\<forall>y\<in>set ys. numeric_surge y"
  shows "sorted_wrt surge_ge (js_insert by_surge_desc x ys)"
  using assms
proof (induction ys)
  case Nil
  then show ?case by simp
next
  case (Cons y ys)
  have nx: "surge_num x \<noteq> NaN" and ny: "surge_num y \<noteq> NaN"
    using Cons.prems by (simp_all add: numeric_surge_num)
  have test: "js_lt (by_surge_desc y x) (Fin 0) = js_lt (surge_num x) (surge_num y)"
    using nx ny by (simp add: by_surge_desc_def js_sub_neg_iff)
  show ?case
  proof (cases "js_lt (surge_num x) (surge_num y)")
    case True
    then have "surge_ge y x"
      by (simp add: surge_ge_def js_lt_imp_ge)
    moreover have "sorted_wrt surge_ge (js_insert by_surge_desc x ys)"
      using Cons by simp
    ultimately show ?thesis
      using Cons.prems True test by (auto simp: set_js_insert)
  next
    case False
    then have xy: "surge_ge x y"
      using nx ny by (simp add: surge_ge_def js_not_lt_ge)
    have "\<forall>z\<in>set ys. surge_ge x z"
      using Cons.prems(1) xy by (auto simp: surge_ge_def intro: js_ge_trans)
    then show ?thesis
      using Cons.prems(1) False test xy by simp
  qed
qed

lemma sorted_js_sort:
  "\<forall>p\<in>set xs. numeric_surge p \<Longrightarrow> sorted_wrt surge_ge (js_sort by_surge_desc xs)"
proof (induction xs)
  case Nil
  then show ?case by (simp add: js_sort_def)
next
  case (Cons x xs)
  have "set (js_sort by_surge_desc xs) = set xs"
    by (metis mset_js_sort set_mset_mset)
  then show ?case
    using Cons sorted_js_insert [of "js_sort by_surge_desc xs" x]
    by (simp add: js_sort_def)
qed

lemma cards_of_numeric:
  "\<forall>p\<in>set ps. numeric_surge p \<Longrightarrow>
   \<exists>cs. cards_of ps = Inr cs \<and> map card_load cs = map surge_num ps
      \<and> map card_name cs = map hospital_name ps"
proof (induction ps)
  case Nil
  then show ?case by simp
next
  case (Cons p ps)
  then obtain cs where cs: "cards_of ps = Inr cs" "map card_load cs = map surge_num ps"
      "map card_name cs = map hospital_name ps"
    by auto
  from Cons.prems obtain v where v: "predicted_surge p = Some v"
    by (auto simp: numeric_surge_def split: option.splits)
  show ?case
    using cs v by (simp add: card_of_def surge_num_def Let_def)
qed

text \<open>
  Claim C8. For every non-empty predictions array whose entries carry numeric
  \<open>predicted_surge\<close> values, \<open>updateHospitalsList\<close> returns normally, the array the caller
  passed is afterwards the sorted array (a permutation of what it held, in non-increasing
  order of \<open>predicted_surge\<close>; no other array changes), and the cards rendered are the cards
  of that array in its order, so no card with a lower \<open>predicted_surge\<close> stands before one
  with a higher.
\<close>

theorem hospital_cards_sorted_in_place:
  assumes "arrays ref \<noteq> []"
    and "\<forall>p\<in>set (arrays ref). numeric_surge p"
  shows "\<exists>arrays' d' cs.
      updateHospitalsList ref (arrays, d) = ((arrays', d'), None)
    \<and> hospitalsContent d' = HospitalCards cs
    \<and> map card_load cs = map surge_num (arrays' ref)
    \<and> map card_name cs = map hospital_name (arrays' ref)
    \<and> sorted_wrt (\<lambda>c c'. js_ge (card_load c) (card_load c')) cs
    \<and> arrays' ref = js_sort by_surge_desc (arrays ref)
    \<and> sorted_wrt (\<lambda>p q. js_ge (surge_num p) (surge_num q)) (arrays' ref)
    \<and> mset (arrays' ref) = mset (arrays ref)
    \<and> (\<forall>other. other \<noteq> ref \<longrightarrow> arrays' other = arrays other)"
proof -
  let ?sorted = "js_sort by_surge_desc (arrays ref)"
  have perm: "mset ?sorted = mset (arrays ref)"
    by (rule mset_js_sort)
  then have same: "set ?sorted = set (arrays ref)"
    by (metis set_mset_mset)
  have srt: "sorted_wrt (\<lambda>p q. js_ge (surge_num p) (surge_num q)) ?sorted"
    using sorted_js_sort [OF assms(2)] by (simp add: surge_ge_def [abs_def])
  from cards_of_numeric [of ?sorted] assms(2) same
  obtain cs where cs: "cards_of ?sorted = Inr cs" "map card_load cs = map surge_num ?sorted"
      "map card_name cs = map hospital_name ?sorted"
    by auto
  have "sorted_wrt (\<lambda>p q. js_ge (surge_num p) (surge_num q)) ?sorted
      = sorted_wrt js_ge (map surge_num ?sorted)"
    by (simp add: sorted_wrt_map)
  with srt cs(2) have "sorted_wrt js_ge (map card_load cs)"
    by simp
  then have csrt: "sorted_wrt (\<lambda>c c'. js_ge (card_load c) (card_load c')) cs"
    by (simp add: sorted_wrt_map)
  show ?thesis
    using assms(1) cs perm srt csrt
    by (simp add: updateHospitalsList_def Let_def)
qed

theorem hospital_cards_sorted_in_place_witness:
  "predictions_example \<noteq> []
   \<and> list_all numeric_surge predictions_example
   \<and> (\<exists>arrays' d' cs.
        updateHospitalsList 0 (\<lambda>r. predictions_example, dom_initial) = ((arrays', d'), None)
      \<and> hospitalsContent d' = HospitalCards cs
      \<and> map card_load cs = [Fin 75, Fin 40, Fin 0]
      \<and> map surge_num (arrays' 0) = [Fin 75, Fin 40, Fin 0])"
proof -
  have ne: "(\<lambda>r::nat. predictions_example) 0 \<noteq> []"
    by (simp add: predictions_example_def)
  have num: "\<forall>p\<in>set ((\<lambda>r::nat. predictions_example) 0). numeric_surge p"
    by (simp add: predictions_example_def numeric_surge_def prediction_blank_factor_def
        prediction_high_def prediction_zero_def)
  have sorted: "map surge_num (js_sort by_surge_desc predictions_example)
      = [Fin 75, Fin 40, Fin 0]"
    by (simp add: predictions_example_def js_sort_def by_surge_desc_def surge_num_def
        js_sub_def prediction_blank_factor_def prediction_high_def prediction_zero_def)
  from hospital_cards_sorted_in_place [of "\<lambda>r. predictions_example" 0 dom_initial, OF ne num]
  obtain arrays' d' cs where
      "updateHospitalsList 0 (\<lambda>r. predictions_example, dom_initial) = ((arrays', d'), None)"
      "hospitalsContent d' = HospitalCards cs"
      "map card_load cs = map surge_num (arrays' 0)"
      "arrays' 0 = js_sort by_surge_desc predictions_example"
    by auto
  then show ?thesis
    using ne num sorted by (auto simp: list_all_iff)
qed

text \<open>
  Claim C10 at a hospital without capacity. The list holds a hospital with capacity 0 and
  no patients, then one with 50 patients of 100; there are no predictions. For the first
  hospital line 80 computes \<open>0 / 0 * 100\<close>, which is NaN, the radius \<open>800 + load * 5\<close> is
  NaN, \<open>L.circle\<close> throws and \<open>updateMap\<close> ends there: no circle and no marker is added
  for either hospital, where the claim has one of each per hospital. Alone, the second
  hospital gets its circle and its marker; and a refresh with the list of two after that
  one removes them and adds nothing. At this input every arithmetic result is NaN or a
  double (0.5, 50, 250, 1050), so the exact arithmetic of the model is the code's.
\<close>

theorem updateMap_stops_at_hospital_without_capacity:
  "map_load (predictionMap (or_list (predictions surge_none))) hospital_closed = NaN
   \<and> radius (surgeCircle_of (predictionMap (or_list (predictions surge_none))) hospital_closed)
       = NaN
   \<and> updateMap leaflet_strict [hospital_closed, hospital_half_full] surge_none initMap
       = (initMap, Some LeafletError)
   \<and> map_layers initMap = [(0, TileLayer)]
   \<and> hospitalMarkers initMap = [] \<and> surgeCircles initMap = []
   \<and> updateMap leaflet_strict [hospital_half_full] surge_none initMap
       = (\<lparr>map_layers =
             [(0, TileLayer),
              (1, CircleLayer (surgeCircle_of Map.empty hospital_half_full)),
              (2, MarkerLayer (marker_of Map.empty hospital_half_full))],
           next_stamp = 3, hospitalMarkers = [2], surgeCircles = [1]\<rparr>, None)
   \<and> radius (surgeCircle_of Map.empty hospital_half_full) = Fin 1050
   \<and> updateMap leaflet_strict [hospital_closed, hospital_half_full] surge_none
         (fst (updateMap leaflet_strict [hospital_half_full] surge_none initMap))
       = (\<lparr>map_layers = [(0, TileLayer)], next_stamp = 3,
            hospitalMarkers = [], surgeCircles = []\<rparr>, Some LeafletError)"
proof -
  have none: "predictionMap (or_list (predictions surge_none)) = Map.empty"
    by (simp add: surge_none_def or_list_def predictionMap_def)
  have load_closed: "map_load Map.empty hospital_closed = NaN"
    by (simp add: map_load_def prediction_surge_def or_num_def occupancy_load_def
        hospital_closed_def)
  have radius_closed: "radius (surgeCircle_of Map.empty hospital_closed) = NaN"
    by (simp add: surgeCircle_of_def load_closed)
  have load_half: "map_load Map.empty hospital_half_full = Fin 50"
    by (simp add: map_load_def prediction_surge_def or_num_def occupancy_load_def
        hospital_half_full_def)
  have radius_half: "radius (surgeCircle_of Map.empty hospital_half_full) = Fin 1050"
    by (simp add: surgeCircle_of_def load_half)
  have rejected: "\<not> circle_accepted leaflet_strict (surgeCircle_of Map.empty hospital_closed)"
    by (simp add: leaflet_strict_def radius_closed)
  have accepted: "circle_accepted leaflet_strict (surgeCircle_of Map.empty hospital_half_full)"
      "marker_accepted leaflet_strict (marker_of Map.empty hospital_half_full)"
    by (simp_all add: leaflet_strict_def radius_half)
  have stop: "add_hospital leaflet_strict Map.empty hospital_closed s = (s, Some LeafletError)" for s
    using rejected by (simp add: add_hospital_def)
  have first: "updateMap leaflet_strict [hospital_closed, hospital_half_full] surge_none initMap
      = (initMap, Some LeafletError)"
    by (simp add: updateMap_def Let_def none stop initMap_def)
  have alone: "updateMap leaflet_strict [hospital_half_full] surge_none initMap
      = (\<lparr>map_layers =
            [(0, TileLayer),
             (1, CircleLayer (surgeCircle_of Map.empty hospital_half_full)),
             (2, MarkerLayer (marker_of Map.empty hospital_half_full))],
          next_stamp = 3, hospitalMarkers = [2], surgeCircles = [1]\<rparr>, None)"
    using accepted
    by (simp add: updateMap_def Let_def none initMap_def add_hospital_def addTo_map_def
        numeral_2_eq_2 numeral_3_eq_3)
  have after: "updateMap leaflet_strict [hospital_closed, hospital_half_full] surge_none
        (fst (updateMap leaflet_strict [hospital_half_full] surge_none initMap))
      = (\<lparr>map_layers = [(0, TileLayer)], next_stamp = 3,
           hospitalMarkers = [], surgeCircles = []\<rparr>, Some LeafletError)"
    unfolding alone by (simp add: updateMap_def Let_def none stop removeLayer_def)
  show ?thesis
    using load_closed radius_closed first alone radius_half after
    by (simp add: none initMap_def)
qed

lemma clamp_score_bounds: "0 \<le> clamp_score x \<and> clamp_score x \<le> 100"
  by (simp add: clamp_score_def)

lemma score_with_bounds: "0 \<le> fst (score_with sc cfg inp h) \<and> fst (score_with sc cfg inp h) \<le> 100"
proof -
  have c: "0 \<le> clamp_score x \<and> clamp_score x \<le> 100" for x
    by (rule clamp_score_bounds)
  show ?thesis
    using c by (auto simp: score_with_def rule_score_def Let_def split: scorer.splits option.splits prod.splits)
qed

text \<open>
  Claim C4. Every batch has one prediction per input hospital, in order; the surge score
  of every prediction lies in [0,100], whichever strategy scored it; and the rule-based
  score is the sum of the base occupancy term and the three adjustments, clamped to
  [0,100].
\<close>

theorem predicted_surge_clamped:
  "length (result_predictions (predict sc cfg inp hs)) = length hs
   \<and> map for_hospital (result_predictions (predict sc cfg inp hs)) = map ident hs
   \<and> (\<forall>p \<in> set (result_predictions (predict sc cfg inp hs)). 0 \<le> surge p \<and> surge p \<le> 100)
   \<and> surge (predict_one RuleBasedScorer cfg inp h)
       = clamp_score (base_occupancy h
           + fst (pollution_adjustment cfg (map_of (pollutionByZone inp) (zone h)))
           + fst (event_adjustment cfg (activeEvents inp) (zone h))
           + fst (inflow_adjustment cfg (map_of (recentInflowByHospital inp) (ident h))))"
proof -
  have one: "0 \<le> surge (predict_one sc cfg inp h') \<and> surge (predict_one sc cfg inp h') \<le> 100" for h'
    using score_with_bounds [of sc cfg inp h']
    by (auto simp: predict_one_def split: prod.splits)
  have ids: "map for_hospital (map (predict_one sc cfg inp) hs) = map ident hs"
    by (simp add: predict_one_def split: prod.splits)
  show ?thesis
    using one ids
    by (auto simp: predict_def Let_def predict_one_def score_with_def rule_score_def split: prod.splits)
qed

theorem predicted_surge_clamped_witness:
  "list_all (\<lambda>p. 0 \<le> surge p \<and> surge p \<le> 100)
     (result_predictions (predict RuleBasedScorer predictor_example signals_example
        [hospital_A, hospital_B]))
   \<and> map surge (result_predictions (predict RuleBasedScorer predictor_example signals_example
        [hospital_A, hospital_B])) = [100, 40]"
proof -
  have "map surge (result_predictions (predict RuleBasedScorer predictor_example signals_example
        [hospital_A, hospital_B])) = [100, 40]"
    by (simp add: predict_def Let_def predict_one_def score_with_def rule_score_def base_occupancy_def
        pollution_adjustment_def event_adjustment_def inflow_adjustment_def clamp_score_def
        predictor_example_def signals_example_def hospital_A_def hospital_B_def)
  then show ?thesis
    using predicted_surge_clamped [of RuleBasedScorer predictor_example signals_example
        "[hospital_A, hospital_B]"]
    by (simp add: list_all_iff)
qed

lemma committed_Cons:
  "committed (t # ts) d = (if destination t = d then quantity t else 0) + committed ts d"
  by (simp add: committed_def)

lemma transfer_quantity_le:
  "transfer_quantity cfg h load remaining \<le> remaining"
  "real_of_int (transfer_quantity cfg h load remaining) \<le> implied_surplus h load"
  "transfer_quantity cfg h load remaining \<le> per_transfer_cap cfg"
proof -
  let ?m = "min (min (implied_surplus h load) (real_of_int remaining)) (real_of_int (per_transfer_cap cfg))"
  have fl: "real_of_int \<lfloor>?m\<rfloor> \<le> ?m"
    by (rule of_int_floor_le)
  have "real_of_int \<lfloor>?m\<rfloor> \<le> real_of_int remaining"
    using fl by linarith
  then show "transfer_quantity cfg h load remaining \<le> remaining"
    by (simp add: transfer_quantity_def)
  show "real_of_int (transfer_quantity cfg h load remaining) \<le> implied_surplus h load"
    using fl by (simp add: transfer_quantity_def)
  have "real_of_int \<lfloor>?m\<rfloor> \<le> real_of_int (per_transfer_cap cfg)"
    using fl by linarith
  then show "transfer_quantity cfg h load remaining \<le> per_transfer_cap cfg"
    by (simp add: transfer_quantity_def)
qed

lemma assign_keeps_hospitals: "map fst (snd (assign cfg src cs)) = map fst cs"
  by (induction cfg src cs rule: assign.induct) (auto simp: Let_def split: prod.splits)

lemma assign_None: "assign cfg src cs = (None, cs') \<Longrightarrow> cs' = cs"
  by (induction cfg src cs arbitrary: cs' rule: assign.induct)
     (auto simp: Let_def split: prod.splits if_splits)

lemma assign_Some:
  "assign cfg src cs = (Some t, cs') \<Longrightarrow>
   source t = ident (fst src) \<and> source_load t = snd src
   \<and> real_of_int (quantity t) \<le> implied_surplus (fst src) (snd src)
   \<and> quantity t \<le> destination_available t
   \<and> quantity t \<le> per_transfer_cap cfg
   \<and> 0 < destination_available t
   \<and> (\<exists>u. (u, destination_available t) \<in> set cs \<and> destination t = ident u
          \<and> distance cfg (coordinate (fst src)) (coordinate u) \<le> max_distance cfg)"
proof (induction cfg src cs arbitrary: cs' rule: assign.induct)
  case (1 cfg src)
  then show ?case by simp
next
  case (2 cfg src u remaining rest)
  show ?case
  proof (cases "0 < remaining
      \<and> distance cfg (coordinate (fst src)) (coordinate u) \<le> max_distance cfg")
    case True
    with "2.prems" show ?thesis
      by (auto simp: Let_def transfer_quantity_le)
  next
    case False
    with "2.prems" obtain rest' where "assign cfg src rest = (Some t, rest')"
      by (auto simp: Let_def split: prod.splits)
    from "2.IH" [OF False this] show ?thesis
      by auto
  qed
qed

lemma assign_counters:
  "distinct (map (\<lambda>c. ident (fst c)) cs) \<Longrightarrow> assign cfg src cs = (Some t, cs') \<Longrightarrow>
   cs' = map (\<lambda>(u, r). (u, r - (if destination t = ident u then quantity t else 0))) cs"
proof (induction cfg src cs arbitrary: cs' rule: assign.induct)
  case (1 cfg src)
  then show ?case by simp
next
  case (2 cfg src u remaining rest)
  show ?case
  proof (cases "0 < remaining
      \<and> distance cfg (coordinate (fst src)) (coordinate u) \<le> max_distance cfg")
    case True
    with "2.prems"(2) have t: "destination t = ident u"
        "quantity t = transfer_quantity cfg (fst src) (snd src) remaining"
      and cs': "cs' = (u, remaining - quantity t) # rest"
      by (auto simp: Let_def)
    have "\<forall>c\<in>set rest. ident (fst c) \<noteq> ident u"
      using "2.prems"(1) by force
    then have "map (\<lambda>(u', r). (u', r - (if destination t = ident u' then quantity t else 0))) rest
        = rest"
      using t(1) by (intro map_idI) auto
    then show ?thesis
      using t(1) cs' by simp
  next
    case False
    with "2.prems"(2) obtain rest' where run: "assign cfg src rest = (Some t, rest')"
      and cs': "cs' = (u, remaining) # rest'"
      by (auto simp: Let_def split: prod.splits)
    from "2.prems"(1) have d: "distinct (map (\<lambda>c. ident (fst c)) rest)"
      by simp
    from assign_Some [OF run] obtain u' r' where "(u', r') \<in> set rest" "destination t = ident u'"
      by blast
    then have "destination t \<noteq> ident u"
      using "2.prems"(1) by force
    then show ?thesis
      using "2.IH" [OF False d run] cs' by simp
  qed
qed

lemma match_all_keeps_hospitals: "map fst (snd (match_all cfg srcs cs)) = map fst cs"
proof (induction srcs arbitrary: cs)
  case Nil
  then show ?case by simp
next
  case (Cons src srcs)
  obtain t cs' where a: "assign cfg src cs = (t, cs')"
    by (cases "assign cfg src cs")
  then have "map fst cs' = map fst cs"
    using assign_keeps_hospitals [of cfg src cs] by simp
  then show ?case
    using a Cons.IH [of cs'] by (cases t) (auto split: prod.splits)
qed

lemma match_all_counters:
  "distinct (map (\<lambda>c. ident (fst c)) cs) \<Longrightarrow> match_all cfg srcs cs = (ts, final) \<Longrightarrow>
   final = map (\<lambda>(u, r). (u, r - committed ts (ident u))) cs"
proof (induction srcs arbitrary: cs ts final)
  case Nil
  then show ?case by (simp add: committed_def)
next
  case (Cons src srcs)
  obtain t cs' where a: "assign cfg src cs = (t, cs')"
    by (cases "assign cfg src cs")
  have same: "map fst cs' = map fst cs"
    using assign_keeps_hospitals [of cfg src cs] a by simp
  have d': "distinct (map (\<lambda>c. ident (fst c)) cs')"
  proof -
    have "map (\<lambda>c. ident (fst c)) cs' = map ident (map fst cs')"
      by simp
    also have "\<dots> = map (\<lambda>c. ident (fst c)) cs"
      by (simp add: same)
    finally show ?thesis
      using Cons.prems(1) by simp
  qed
  show ?case
  proof (cases t)
    case None
    with a Cons.prems(2) have "match_all cfg srcs cs' = (ts, final)" and "cs' = cs"
      by (auto dest: assign_None)
    then show ?thesis
      using Cons.IH [OF d'] by simp
  next
    case (Some t')
    with a Cons.prems(2) obtain ts' where run: "match_all cfg srcs cs' = (ts', final)"
      and ts: "ts = t' # ts'"
      by (auto split: prod.splits)
    have cs': "cs' = map (\<lambda>(u, r). (u, r - (if destination t' = ident u then quantity t' else 0))) cs"
      using assign_counters [OF Cons.prems(1)] a Some by simp
    have "final = map (\<lambda>(u, r). (u, r - committed ts' (ident u))) cs'"
      by (rule Cons.IH [OF d' run])
    then show ?thesis
      unfolding cs' ts by (auto simp: committed_Cons)
  qed
qed

lemma assign_nonneg:
  "\<forall>c\<in>set cs. 0 \<le> snd c \<Longrightarrow> \<forall>c\<in>set (snd (assign cfg src cs)). 0 \<le> snd c"
proof (induction cfg src cs rule: assign.induct)
  case (1 cfg src)
  then show ?case by simp
next
  case (2 cfg src u remaining rest)
  have "0 \<le> remaining - transfer_quantity cfg (fst src) (snd src) remaining"
    using transfer_quantity_le(1) [of cfg "fst src" "snd src" remaining] by simp
  then show ?case
    using 2 by (auto simp: Let_def split: prod.splits)
qed

lemma match_all_nonneg:
  "\<forall>c\<in>set cs. 0 \<le> snd c \<Longrightarrow> \<forall>c\<in>set (snd (match_all cfg srcs cs)). 0 \<le> snd c"
proof (induction srcs arbitrary: cs)
  case Nil
  then show ?case by simp
next
  case (Cons src srcs)
  obtain t cs' where a: "assign cfg src cs = (t, cs')"
    by (cases "assign cfg src cs")
  have "\<forall>c\<in>set cs'. 0 \<le> snd c"
    using assign_nonneg [OF Cons.prems, of cfg src] a by simp
  from Cons.IH [OF this] show ?case
    using a by (cases t) (auto split: prod.splits)
qed

lemma match_all_quantities:
  "match_all cfg srcs cs = (ts, final) \<Longrightarrow> t \<in> set ts \<Longrightarrow>
   \<exists>src\<in>set srcs. source t = ident (fst src) \<and> source_load t = snd src
      \<and> real_of_int (quantity t) \<le> implied_surplus (fst src) (snd src)
      \<and> quantity t \<le> destination_available t
      \<and> quantity t \<le> per_transfer_cap cfg"
proof (induction srcs arbitrary: cs ts final)
  case Nil
  then show ?case by simp
next
  case (Cons src srcs)
  obtain t0 cs' where a: "assign cfg src cs = (t0, cs')"
    by (cases "assign cfg src cs")
  show ?case
  proof (cases t0)
    case None
    with a Cons.prems(1) have "match_all cfg srcs cs' = (ts, final)"
      by simp
    from Cons.IH [OF this Cons.prems(2)] show ?thesis
      by auto
  next
    case (Some t')
    with a Cons.prems(1) obtain ts' where run: "match_all cfg srcs cs' = (ts', final)"
      and ts: "ts = t' # ts'"
      by (auto split: prod.splits)
    show ?thesis
    proof (cases "t = t'")
      case True
      then show ?thesis
        using assign_Some [of cfg src cs t' cs'] a Some by auto
    next
      case False
      then have "t \<in> set ts'"
        using Cons.prems(2) ts by simp
      from Cons.IH [OF run this] show ?thesis
        by auto
    qed
  qed
qed

lemma overloaded_in_order_sound:
  "src \<in> set (overloaded_in_order ps hs) \<Longrightarrow>
   fst src \<in> set hs \<and> load_signal ps (fst src) = Some (snd src) \<and> classify ps (fst src) = Overloaded"
  by (auto simp: overloaded_in_order_def split: option.splits if_splits)

lemma underutilized_has_free_bed: "classify ps h = Underutilized \<Longrightarrow> 1 \<le> free_beds h"
  by (auto simp: classify_def split: option.splits if_splits)

lemma underutilized_in_order_set:
  "set (underutilized_in_order ps hs)
     = (\<lambda>h. (h, free_beds h)) ` {h \<in> set hs. classify ps h = Underutilized}"
  by (auto simp: underutilized_in_order_def)

lemma underutilized_in_order_distinct:
  assumes "distinct (map ident hs)"
  shows "distinct (map (\<lambda>c. ident (fst c)) (underutilized_in_order ps hs))"
proof -
  let ?us = "sort_key (\<lambda>h. (- free_beds h, ident h)) (filter (\<lambda>h. classify ps h = Underutilized) hs)"
  from assms have "distinct hs" and inj: "inj_on ident (set hs)"
    by (simp_all add: distinct_map)
  then have "distinct ?us" and "inj_on ident (set ?us)"
    by (auto intro: inj_on_subset)
  then have "distinct (map ident ?us)"
    by (simp add: distinct_map)
  moreover have "map (\<lambda>c. ident (fst c)) (underutilized_in_order ps hs) = map ident ?us"
    by (simp add: underutilized_in_order_def comp_def)
  ultimately show ?thesis
    by simp
qed

text \<open>
  Claim C5. In one run of the balancer the counters stay those of the underutilized
  hospitals in their order and none ends below 0; every transfer comes from an overloaded
  hospital of the input and its quantity exceeds neither that hospital's implied surplus
  above the overload threshold nor the beds its destination had left when it was chosen;
  and, hospital identifiers being distinct, each counter ends at the hospital's free beds
  minus all quantities committed to it in the run, so the transfers to a destination
  never add up to more than its free beds.
\<close>

theorem balance_never_overcommits:
  fixes cfg :: balancer_config and hs :: "bed_hospital list" and ps :: "surge_prediction list"
  defines "ts \<equiv> fst (balance_transfers cfg hs ps)"
    and "final \<equiv> snd (balance_transfers cfg hs ps)"
  shows "map fst final = map fst (underutilized_in_order ps hs)
     \<and> (\<forall>c \<in> set final. 0 \<le> snd c)
     \<and> (\<forall>t \<in> set ts. \<exists>h \<in> set hs. \<exists>load.
           load_signal ps h = Some load \<and> classify ps h = Overloaded
         \<and> source t = ident h \<and> source_load t = load
         \<and> real_of_int (quantity t) \<le> implied_surplus h load
         \<and> quantity t \<le> destination_available t)
     \<and> (distinct (map ident hs) \<longrightarrow>
           final = map (\<lambda>(u, r). (u, r - committed ts (ident u))) (underutilized_in_order ps hs)
         \<and> (\<forall>u \<in> set hs. classify ps u = Underutilized \<longrightarrow>
               0 \<le> free_beds u - committed ts (ident u)))"
proof -
  let ?srcs = "overloaded_in_order ps hs" and ?cs = "underutilized_in_order ps hs"
  have run: "match_all cfg ?srcs ?cs = (ts, final)"
    by (simp add: ts_def final_def balance_transfers_def)
  have same: "map fst final = map fst ?cs"
    using match_all_keeps_hospitals [of cfg ?srcs ?cs] run by simp
  have start: "\<forall>c\<in>set ?cs. 0 \<le> snd c"
    by (fastforce simp: underutilized_in_order_set dest: underutilized_has_free_bed)
  have nonneg: "\<forall>c\<in>set final. 0 \<le> snd c"
    using match_all_nonneg [OF start, of cfg ?srcs] run by simp
  have quantities: "\<exists>h \<in> set hs. \<exists>load.
        load_signal ps h = Some load \<and> classify ps h = Overloaded
      \<and> source t = ident h \<and> source_load t = load
      \<and> real_of_int (quantity t) \<le> implied_surplus h load
      \<and> quantity t \<le> destination_available t" if "t \<in> set ts" for t
  proof -
    from match_all_quantities [OF run that] obtain src where src: "src \<in> set ?srcs"
        "source t = ident (fst src)" "source_load t = snd src"
        "real_of_int (quantity t) \<le> implied_surplus (fst src) (snd src)"
        "quantity t \<le> destination_available t"
      by blast
    from overloaded_in_order_sound [OF src(1)] src(2-) show ?thesis
      by blast
  qed
  have counters: "final = map (\<lambda>(u, r). (u, r - committed ts (ident u))) ?cs
      \<and> (\<forall>u \<in> set hs. classify ps u = Underutilized \<longrightarrow>
            0 \<le> free_beds u - committed ts (ident u))"
    if d: "distinct (map ident hs)"
  proof -
    have final: "final = map (\<lambda>(u, r). (u, r - committed ts (ident u))) ?cs"
      by (rule match_all_counters [OF underutilized_in_order_distinct [OF d] run])
    have "0 \<le> free_beds u - committed ts (ident u)"
      if "u \<in> set hs" "classify ps u = Underutilized" for u
    proof -
      from that have "(u, free_beds u) \<in> set ?cs"
        by (auto simp: underutilized_in_order_set)
      then have "(u, free_beds u - committed ts (ident u)) \<in> set final"
        unfolding final by force
      with nonneg show ?thesis
        by force
    qed
    with final show ?thesis
      by blast
  qed
  show ?thesis
    using same nonneg quantities counters by blast
qed

theorem balance_never_overcommits_witness:
  "distinct (map ident [hospital_A, hospital_B])
   \<and> classify [] hospital_A = Overloaded
   \<and> classify [] hospital_B = Underutilized
   \<and> map quantity (fst (balance_transfers balancer_example [hospital_A, hospital_B] [])) = [10]
   \<and> implied_surplus hospital_A 95 = 10
   \<and> committed (fst (balance_transfers balancer_example [hospital_A, hospital_B] [])) ''B'' = 10
   \<and> map snd (snd (balance_transfers balancer_example [hospital_A, hospital_B] [])) = [60]
   \<and> 0 \<le> free_beds hospital_B
          - committed (fst (balance_transfers balancer_example [hospital_A, hospital_B] []))
              (ident hospital_B)"
proof -
  have d: "distinct (map ident [hospital_A, hospital_B])"
    by (simp add: hospital_A_def hospital_B_def)
  have sa: "load_signal [] hospital_A = Some 95" and sb: "load_signal [] hospital_B = Some 30"
    by (simp_all add: load_signal_def hospital_A_def hospital_B_def)
  have fb: "free_beds hospital_B = 70"
    by (simp add: free_beds_def hospital_B_def)
  have ca: "classify [] hospital_A = Overloaded" and cb: "classify [] hospital_B = Underutilized"
    by (simp_all add: classify_def sa sb overload_threshold_def underutilized_threshold_def fb)
  have srcs: "overloaded_in_order [] [hospital_A, hospital_B] = [(hospital_A, 95)]"
    by (simp add: overloaded_in_order_def sa sb ca cb)
  have dests: "underutilized_in_order [] [hospital_A, hospital_B] = [(hospital_B, 70)]"
    by (simp add: underutilized_in_order_def ca cb fb)
  have surplus: "implied_surplus hospital_A 95 = 10"
    by (simp add: implied_surplus_def overload_threshold_def hospital_A_def)
  have q: "transfer_quantity balancer_example hospital_A 95 70 = 10"
    by (simp add: transfer_quantity_def surplus balancer_example_def)
  have near: "distance balancer_example (coordinate hospital_A) (coordinate hospital_B)
      \<le> max_distance balancer_example"
    by (simp add: balancer_example_def hospital_A_def hospital_B_def)
  have run: "balance_transfers balancer_example [hospital_A, hospital_B] [] =
      ([\<lparr>source = ident hospital_A, source_load = 95, destination = ident hospital_B,
         destination_available = 70, quantity = 10,
         distance_between = distance balancer_example (coordinate hospital_A) (coordinate hospital_B),
         urgency = Urgent\<rparr>],
       [(hospital_B, 60)])"
    by (simp add: balance_transfers_def srcs dests near q risk_tier_def)
  have idb: "ident hospital_B = ''B''"
    by (simp add: hospital_B_def)
  have "0 \<le> free_beds hospital_B
      - committed (fst (balance_transfers balancer_example [hospital_A, hospital_B] []))
          (ident hospital_B)"
    using balance_never_overcommits [where cfg = balancer_example
        and hs = "[hospital_A, hospital_B]" and ps = "[]"] d cb
    by simp
  then show ?thesis
    using d ca cb surplus by (simp add: run committed_def idb)
qed

end
